theory Spec2Isabelle
  imports Main "HOL-Library.AList"
begin

section \<open>Legion Link: data model\<close>

text \<open>
  The embedding follows \<^verbatim>\<open>services/legionService.ts\<close> (class \<^verbatim>\<open>LegionService\<close>), the
  types of \<^verbatim>\<open>types.ts\<close> and the message handler and recording functions of
  \<^verbatim>\<open>components/CameraInterface.tsx\<close>.
  JavaScript numbers carrying millisecond timestamps are integers far below \<open>2^53\<close>, where
  double arithmetic is exact; they are modelled as \<open>int\<close>.
  Every reading of \<^verbatim>\<open>Date.now()\<close> and every answer of the environment (the timer handle
  returned by \<^verbatim>\<open>setInterval\<close>, whether the native plugin is present, whether the
  \<^verbatim>\<open>WebSocket\<close> constructor throws) is a parameter of the function that asks for it.
\<close>

datatype LegionRole = LEGATUS | CENTURION

datatype ConnectivityProtocol = WIFI | BLUETOOTH

datatype MsgType =
  HANDSHAKE | SYNC | START_REC | STOP_REC | HEARTBEAT | TELEMETRY | PREVIEW_FRAME | COMMAND

datatype DeviceStatus = ONLINE | RECORDING | OFFLINE

text \<open>
  The payload is \<^verbatim>\<open>any\<close> in the source; the record holds the fields the code reads or
  writes, each possibly absent.
\<close>

record Payload =
  pl_name :: "string option"
  pl_status :: "DeviceStatus option"
  pl_lens :: "string option"
  pl_preview :: "string option"
  pl_delay :: "int option"
  pl_protocol :: "ConnectivityProtocol option"

definition emptyPayload :: Payload where
  "emptyPayload = \<lparr>pl_name = None, pl_status = None, pl_lens = None, pl_preview = None,
     pl_delay = None, pl_protocol = None\<rparr>"

record LegionMessage =
  mtype :: MsgType
  timestamp :: int
  senderId :: string
  payload :: "Payload option"

record DeviceTelemetry =
  dev_id :: string
  dev_name :: string
  dev_role :: LegionRole
  dev_status :: DeviceStatus
  currentLens :: string
  previewFrame :: "string option"
  lastPing :: int

datatype ReadyState = CONNECTING | OPEN | CLOSING | CLOSED

record WebSocket =
  url :: string
  readyState :: ReadyState

text \<open>
  Callbacks are closures; the model names each closure by a number. Deferred work
  (\<^verbatim>\<open>setTimeout\<close>, \<^verbatim>\<open>setInterval\<close>) is a task handed to the event loop, and everything a
  function does to the outside is an entry of its effect list, in program order.
\<close>

datatype Task =
  Loopback LegionMessage
  | HeartbeatTick
  | DelayedStart

datatype Effect =
  SocketSend LegionMessage
  | NativeBroadcast MsgType "Payload option" ConnectivityProtocol
  | CallMessageObserver nat LegionMessage
  | CallTelemetryObserver nat "DeviceTelemetry list"
  | SetTimeout Task int
  | SetInterval Task int nat
  | ClearInterval nat
  | RecorderStart
  | RecorderStop

datatype error = WebSocketConstructorError

record LegionService =
  socket :: "WebSocket option"
  role :: "LegionRole option"
  protocol :: ConnectivityProtocol
  deviceId :: string
  syncOffset :: int
  onMessageCallback :: "nat option"
  onTelemetryCallback :: "nat option"
  heartbeatInterval :: "nat option"
  devices :: "(string \<times> DeviceTelemetry) list"

text \<open>
  The field initialisers of the class. \<^verbatim>\<open>devices\<close> is a JavaScript \<^verbatim>\<open>Map\<close>: an association
  list in insertion order, with one entry per key.
\<close>

definition newLegionService :: "string \<Rightarrow> LegionService" where
  "newLegionService uuid = \<lparr>socket = None, role = None, protocol = WIFI, deviceId = uuid,
     syncOffset = 0, onMessageCallback = None, onTelemetryCallback = None,
     heartbeatInterval = None, devices = []\<rparr>"

section \<open>LegionService\<close>

text \<open>JavaScript truthiness of a string that may be undefined, and \<^verbatim>\<open>a || b\<close> on it.\<close>

fun truthyStr :: "string option \<Rightarrow> bool" where
  "truthyStr None = False"
| "truthyStr (Some s) = (s \<noteq> [])"

fun orStr :: "string option \<Rightarrow> string \<Rightarrow> string" where
  "orStr None d = d"
| "orStr (Some s) d = (if s = [] then d else s)"

fun orStatus :: "DeviceStatus option \<Rightarrow> DeviceStatus \<Rightarrow> DeviceStatus" where
  "orStatus None d = d"
| "orStatus (Some s) d = s"

text \<open>\<^verbatim>\<open>if (this.heartbeatInterval)\<close>: a timer handle is a number, falsy when 0 or null.\<close>

fun truthyHandle :: "nat option \<Rightarrow> bool" where
  "truthyHandle None = False"
| "truthyHandle (Some h) = (h \<noteq> 0)"

definition nodeName :: "LegionService \<Rightarrow> string" where
  "nodeName s = ''Node_'' @ take 4 (deviceId s)"

definition socketOpen :: "LegionService \<Rightarrow> bool" where
  "socketOpen s = (case socket s of None \<Rightarrow> False | Some w \<Rightarrow> readyState w = OPEN)"

text \<open>
  \<^verbatim>\<open>sendCommand(type, payload)\<close>. It changes no field of the service; its result is what it
  does: a send on the open socket, or on the LEGATUS the native broadcast (when the plugin
  exists) followed by \<^verbatim>\<open>setTimeout(loopback, 0)\<close>, or nothing.
\<close>

definition mkMessage :: "MsgType \<Rightarrow> Payload option \<Rightarrow> int \<Rightarrow> LegionService \<Rightarrow> LegionMessage" where
  "mkMessage t pl now s = \<lparr>mtype = t, timestamp = now, senderId = deviceId s, payload = pl\<rparr>"

definition sendCommand ::
  "MsgType \<Rightarrow> Payload option \<Rightarrow> int \<Rightarrow> bool \<Rightarrow> LegionService \<Rightarrow> Effect list" where
  "sendCommand t pl now hasPlugin s =
     (let msg = mkMessage t pl now s in
      if socketOpen s then [SocketSend msg]
      else if role s = Some LEGATUS then
        (if hasPlugin then [NativeBroadcast (mtype msg) (payload msg) (protocol s)] else [])
        @ [SetTimeout (Loopback msg) 0]
      else [])"

text \<open>The body of the loopback timer: the observer registered when the timer fires.\<close>

definition runLoopback :: "LegionMessage \<Rightarrow> LegionService \<Rightarrow> Effect list" where
  "runLoopback msg s =
     (case onMessageCallback s of None \<Rightarrow> [] | Some cb \<Rightarrow> [CallMessageObserver cb msg])"

definition getConnectedDevices :: "LegionService \<Rightarrow> DeviceTelemetry list" where
  "getConnectedDevices s = map snd (devices s)"

definition notifyTelemetry :: "LegionService \<Rightarrow> Effect list" where
  "notifyTelemetry s =
     (case onTelemetryCallback s of None \<Rightarrow> []
      | Some cb \<Rightarrow> [CallTelemetryObserver cb (map snd (devices s))])"

definition getSynchronizedTime :: "int \<Rightarrow> LegionService \<Rightarrow> int" where
  "getSynchronizedTime now s = now - syncOffset s"

text \<open>
  \<^verbatim>\<open>onMessage\<close> and \<^verbatim>\<open>onTelemetryUpdate\<close> store the callback in the single slot and return
  the unsubscribe closure, which is a state transformer here.
\<close>

definition onMessage ::
  "nat \<Rightarrow> LegionService \<Rightarrow> LegionService \<times> (LegionService \<Rightarrow> LegionService)" where
  "onMessage cb s = (s\<lparr>onMessageCallback := Some cb\<rparr>, \<lambda>s'. s'\<lparr>onMessageCallback := None\<rparr>)"

definition onTelemetryUpdate ::
  "nat \<Rightarrow> LegionService \<Rightarrow> LegionService \<times> (LegionService \<Rightarrow> LegionService)" where
  "onTelemetryUpdate cb s =
     (s\<lparr>onTelemetryCallback := Some cb\<rparr>, \<lambda>s'. s'\<lparr>onTelemetryCallback := None\<rparr>)"

text \<open>
  \<^verbatim>\<open>handleMessage(msg)\<close>, with \<^verbatim>\<open>localNow = Date.now()\<close> as \<open>now\<close>. \<^verbatim>\<open>Map.set\<close> keeps the
  position of a key already present, as \<open>AList.update\<close> does.
\<close>

definition mkDevice :: "LegionMessage \<Rightarrow> int \<Rightarrow> DeviceTelemetry" where
  "mkDevice msg now =
     \<lparr>dev_id = senderId msg,
      dev_name = orStr (Option.bind (payload msg) pl_name) ''Vanguard Node'',
      dev_role = CENTURION,
      dev_status = orStatus (Option.bind (payload msg) pl_status) ONLINE,
      currentLens = orStr (Option.bind (payload msg) pl_lens) ''STANDARD'',
      previewFrame = Option.bind (payload msg) pl_preview,
      lastPing = now\<rparr>"

definition handleMessage ::
  "LegionMessage \<Rightarrow> int \<Rightarrow> LegionService \<Rightarrow> LegionService \<times> Effect list" where
  "handleMessage msg now s =
     (if senderId msg = deviceId s then (s, [])
      else
        let s1 = (if mtype msg = SYNC \<or> mtype msg = HEARTBEAT
                  then s\<lparr>syncOffset := now - timestamp msg\<rparr> else s);
            s2 = (if mtype msg = TELEMETRY \<or> mtype msg = HANDSHAKE
                  then s1\<lparr>devices := AList.update (senderId msg) (mkDevice msg now) (devices s1)\<rparr>
                  else s1);
            e2 = (if mtype msg = TELEMETRY \<or> mtype msg = HANDSHAKE
                  then notifyTelemetry s2 else []);
            e3 = (case onMessageCallback s2 of None \<Rightarrow> []
                  | Some cb \<Rightarrow> [CallMessageObserver cb msg])
        in (s2, e2 @ e3))"

text \<open>\<^verbatim>\<open>startHeartbeat\<close> and \<^verbatim>\<open>stopHeartbeat\<close>; \<open>h\<close> is the handle \<^verbatim>\<open>setInterval\<close> returns.\<close>

definition startHeartbeat :: "nat \<Rightarrow> LegionService \<Rightarrow> LegionService \<times> Effect list" where
  "startHeartbeat h s =
     (if truthyHandle (heartbeatInterval s) then (s, [])
      else (s\<lparr>heartbeatInterval := Some h\<rparr>, [SetInterval HeartbeatTick 5000 h]))"

definition stopHeartbeat :: "LegionService \<Rightarrow> LegionService \<times> Effect list" where
  "stopHeartbeat s =
     (case heartbeatInterval s of
        None \<Rightarrow> (s, [])
      | Some h \<Rightarrow> if h \<noteq> 0 then (s\<lparr>heartbeatInterval := None\<rparr>, [ClearInterval h]) else (s, []))"

text \<open>
  The callback of the heartbeat interval. The \<^verbatim>\<open>forEach\<close> over the map visits every entry
  present when it starts (deleting the entry being visited does not disturb the iteration);
  the loop carries the map and the \<^verbatim>\<open>changed\<close> flag.
\<close>

definition heartbeatPayload :: "LegionService \<Rightarrow> Payload" where
  "heartbeatPayload s = emptyPayload\<lparr>pl_status := Some ONLINE, pl_name := Some (nodeName s),
     pl_protocol := Some (protocol s)\<rparr>"

fun sweepLoop ::
  "int \<Rightarrow> (string \<times> DeviceTelemetry) list \<Rightarrow> (string \<times> DeviceTelemetry) list \<times> bool
     \<Rightarrow> (string \<times> DeviceTelemetry) list \<times> bool" where
  "sweepLoop now [] acc = acc"
| "sweepLoop now ((k, d) # rest) (m, changed) =
     (if now - lastPing d > 15000 then sweepLoop now rest (AList.delete k m, True)
      else sweepLoop now rest (m, changed))"

definition sweep :: "int \<Rightarrow> LegionService \<Rightarrow> LegionService \<times> Effect list" where
  "sweep now s =
     (let r = sweepLoop now (devices s) (devices s, False);
          s' = s\<lparr>devices := fst r\<rparr>
      in (s', if snd r then notifyTelemetry s' else []))"

definition heartbeatTick ::
  "int \<Rightarrow> bool \<Rightarrow> int \<Rightarrow> LegionService \<Rightarrow> LegionService \<times> Effect list" where
  "heartbeatTick sendTime hasPlugin now s =
     (let e1 = sendCommand HEARTBEAT (Some (heartbeatPayload s)) sendTime hasPlugin s;
          r = sweep now s
      in (fst r, e1 @ snd r))"

text \<open>
  \<^verbatim>\<open>initialize(role, protocol, targetIp)\<close>. The only statement that can throw is
  \<^verbatim>\<open>new WebSocket(url)\<close> (\<open>ctorThrows\<close>); the fields assigned before it stay assigned.
  The handlers installed on the socket are \<open>socketOnOpen\<close> and \<open>socketOnMessage\<close> below.
\<close>

definition socketUrl :: "ConnectivityProtocol \<Rightarrow> string \<Rightarrow> string" where
  "socketUrl p ip = ''ws://'' @ ip @ '':'' @ (if p = WIFI then ''8080'' else ''8081'') @ ''/legion''"

definition initialize ::
  "LegionRole \<Rightarrow> ConnectivityProtocol \<Rightarrow> string option \<Rightarrow> bool \<Rightarrow> nat \<Rightarrow> LegionService
     \<Rightarrow> (error + unit) \<times> LegionService \<times> Effect list" where
  "initialize r p targetIp ctorThrows h s =
     (let s1 = s\<lparr>role := Some r, protocol := p\<rparr>;
          st = stopHeartbeat s1
      in if r = CENTURION \<and> truthyStr targetIp then
           (if ctorThrows then (Inl WebSocketConstructorError, fst st, snd st)
            else (Inr (),
                  (fst st)\<lparr>socket := Some \<lparr>url = socketUrl p (orStr targetIp []), readyState = CONNECTING\<rparr>\<rparr>,
                  snd st))
         else
           (let sh = startHeartbeat h (fst st) in (Inr (), fst sh, snd st @ snd sh)))"

definition handshakePayload :: "ConnectivityProtocol \<Rightarrow> LegionService \<Rightarrow> Payload" where
  "handshakePayload p s = emptyPayload\<lparr>pl_name := Some (nodeName s), pl_protocol := Some p\<rparr>"

text \<open>
  \<^verbatim>\<open>socket.onopen\<close>: the socket is open when the handler runs. The closure sends the
  \<^verbatim>\<open>protocol\<close> argument of the \<^verbatim>\<open>initialize\<close> call that created it (\<open>p\<close>).
\<close>

definition socketOnOpen ::
  "ConnectivityProtocol \<Rightarrow> int \<Rightarrow> bool \<Rightarrow> nat \<Rightarrow> LegionService \<Rightarrow> LegionService \<times> Effect list" where
  "socketOnOpen p now hasPlugin h s =
     (case socket s of
        None \<Rightarrow> (s, [])
      | Some w \<Rightarrow>
          let s1 = s\<lparr>socket := Some (w\<lparr>readyState := OPEN\<rparr>)\<rparr>;
              e1 = sendCommand HANDSHAKE (Some (handshakePayload p s1)) now hasPlugin s1;
              sh = startHeartbeat h s1
          in (fst sh, e1 @ snd sh))"

text \<open>
  \<^verbatim>\<open>socket.onmessage\<close>: \<open>None\<close> is data that \<^verbatim>\<open>JSON.parse\<close> rejects (caught and logged).
  This handler is the only caller of \<^verbatim>\<open>handleMessage\<close>, and it exists only on a socket
  that \<^verbatim>\<open>initialize\<close> created.
\<close>

definition socketOnMessage ::
  "LegionMessage option \<Rightarrow> int \<Rightarrow> LegionService \<Rightarrow> LegionService \<times> Effect list" where
  "socketOnMessage data now s =
     (case socket s of
        None \<Rightarrow> (s, [])
      | Some w \<Rightarrow> (case data of None \<Rightarrow> (s, []) | Some msg \<Rightarrow> handleMessage msg now s))"

section \<open>CameraInterface: the capture side of Legion Link\<close>

text \<open>
  The part of the component that the recording functions and the message handler touch:
  the \<^verbatim>\<open>stream\<close> state (non-null or not), whether \<^verbatim>\<open>mediaRecorderRef.current\<close> is
  non-null, the \<^verbatim>\<open>isRecording\<close> state, the \<^verbatim>\<open>isRecordingRef\<close> that an effect copies from
  it after each render, and the props.

  \<^verbatim>\<open>startRecording\<close> and \<^verbatim>\<open>stopRecording\<close> are created anew by every render and read
  \<^verbatim>\<open>stream\<close>, \<^verbatim>\<open>isLegionMode\<close> and \<^verbatim>\<open>legionRole\<close> from the render that created them: a
  \<open>Closure\<close> holds these values. The shutter uses the functions of the current render. The
  message handler is created by the effect with dependency \<^verbatim>\<open>[isLegionMode]\<close> and keeps
  the functions of the render in which that effect ran: \<open>handler\<close> holds their closure.
  Refs are shared by all renders, so they are read from the component itself.
\<close>

record Closure =
  cl_stream :: bool
  cl_isLegionMode :: bool
  cl_legionRole :: "LegionRole option"

record CameraInterface =
  stream :: bool
  mediaRecorderRef :: bool
  isRecording :: bool
  isRecordingRef :: bool
  isLegionMode :: bool
  legionRole :: "LegionRole option"
  handler :: Closure

text \<open>What the functions created by the current render see.\<close>

definition closureOf :: "CameraInterface \<Rightarrow> Closure" where
  "closureOf cam = \<lparr>cl_stream = stream cam, cl_isLegionMode = isLegionMode cam,
     cl_legionRole = legionRole cam\<rparr>"

text \<open>The effect \<^verbatim>\<open>isRecordingRef.current = isRecording\<close>, run after a render.\<close>

definition rerender :: "CameraInterface \<Rightarrow> CameraInterface" where
  "rerender cam = cam\<lparr>isRecordingRef := isRecording cam\<rparr>"

definition startRecording ::
  "bool \<Rightarrow> int \<Rightarrow> bool \<Rightarrow> LegionService \<Rightarrow> Closure \<Rightarrow> CameraInterface
     \<Rightarrow> CameraInterface \<times> Effect list" where
  "startRecording broadcast now hasPlugin svc cl cam =
     (if \<not> cl_stream cl then (cam, [])
      else (cam\<lparr>mediaRecorderRef := True, isRecording := True\<rparr>,
            RecorderStart #
            (if broadcast \<and> cl_isLegionMode cl \<and> cl_legionRole cl = Some LEGATUS
             then sendCommand START_REC (Some (emptyPayload\<lparr>pl_delay := Some 500\<rparr>)) now hasPlugin svc
             else [])))"

definition stopRecording ::
  "bool \<Rightarrow> int \<Rightarrow> bool \<Rightarrow> LegionService \<Rightarrow> Closure \<Rightarrow> CameraInterface
     \<Rightarrow> CameraInterface \<times> Effect list" where
  "stopRecording broadcast now hasPlugin svc cl cam =
     (if mediaRecorderRef cam \<and> isRecordingRef cam
      then (cam\<lparr>isRecording := False\<rparr>,
            RecorderStop #
            (if broadcast \<and> cl_isLegionMode cl \<and> cl_legionRole cl = Some LEGATUS
             then sendCommand STOP_REC None now hasPlugin svc
             else []))
      else (cam, []))"

text \<open>\<^verbatim>\<open>msg.payload?.delay || 0\<close>\<close>

definition delayOf :: "LegionMessage \<Rightarrow> int" where
  "delayOf msg = (case Option.bind (payload msg) pl_delay of None \<Rightarrow> 0 | Some d \<Rightarrow> d)"

text \<open>
  The closure the component passes to \<^verbatim>\<open>legionService.onMessage\<close>; \<open>now\<close> is the
  \<^verbatim>\<open>Date.now()\<close> read inside \<^verbatim>\<open>getSynchronizedTime\<close>. The handle \<^verbatim>\<open>setTimeout\<close> returns
  is dropped by the source, so no effect can refer to it.
\<close>

definition messageHandler ::
  "LegionMessage \<Rightarrow> int \<Rightarrow> bool \<Rightarrow> LegionService \<Rightarrow> CameraInterface
     \<Rightarrow> CameraInterface \<times> Effect list" where
  "messageHandler msg now hasPlugin svc cam =
     (if senderId msg = deviceId svc then (cam, [])
      else if mtype msg = START_REC then
        (cam, [SetTimeout DelayedStart
                 (max 0 ((timestamp msg + delayOf msg) - getSynchronizedTime now svc))])
      else if mtype msg = STOP_REC then
        (if isRecordingRef cam then stopRecording False now hasPlugin svc (handler cam) cam
         else (cam, []))
      else (cam, []))"

text \<open>
  The body of the delayed-start timer: the guard reads the ref, and \<^verbatim>\<open>startRecording\<close> is
  the one the handler captured.
\<close>

definition delayedStart ::
  "int \<Rightarrow> bool \<Rightarrow> LegionService \<Rightarrow> CameraInterface \<Rightarrow> CameraInterface \<times> Effect list" where
  "delayedStart now hasPlugin svc cam =
     (if \<not> isRecordingRef cam then startRecording False now hasPlugin svc (handler cam) cam
      else (cam, []))"

section \<open>A node: service, component and pending timers\<close>

text \<open>
  The event loop of one device. \<open>timeouts\<close> holds the \<^verbatim>\<open>setTimeout\<close> tasks not yet run,
  with their delays; nothing in the source clears a timeout, so a task leaves the list
  only by running. \<open>trace\<close> collects the effects so far. The only closure the application
  passes to \<^verbatim>\<open>onMessage\<close> is the component's handler, so an invocation of the message
  observer runs \<open>messageHandler\<close>.
\<close>

record Node =
  svc :: LegionService
  cam :: CameraInterface
  timeouts :: "(Task \<times> int) list"
  trace :: "Effect list"

fun scheduled :: "Effect list \<Rightarrow> (Task \<times> int) list" where
  "scheduled [] = []"
| "scheduled (SetTimeout t d # es) = (t, d) # scheduled es"
| "scheduled (e # es) = scheduled es"

fun observerCalls :: "Effect list \<Rightarrow> LegionMessage list" where
  "observerCalls [] = []"
| "observerCalls (CallMessageObserver cb m # es) = m # observerCalls es"
| "observerCalls (e # es) = observerCalls es"

definition absorb :: "Effect list \<Rightarrow> Node \<Rightarrow> Node" where
  "absorb es n = n\<lparr>timeouts := timeouts n @ scheduled es, trace := trace n @ es\<rparr>"

text \<open>The service invokes the observer with each message of \<open>ms\<close>, in order.\<close>

fun deliver :: "LegionMessage list \<Rightarrow> int \<Rightarrow> bool \<Rightarrow> Node \<Rightarrow> Node" where
  "deliver [] now hasPlugin n = n"
| "deliver (m # ms) now hasPlugin n =
     (let r = messageHandler m now hasPlugin (svc n) (cam n)
      in deliver ms now hasPlugin (absorb (snd r) (n\<lparr>cam := fst r\<rparr>)))"

text \<open>
  A frame arrives on the socket. The handler runs inside \<^verbatim>\<open>handleMessage\<close>, in the same
  turn; both clock readings of the turn are \<open>now\<close>.
\<close>

definition nodeReceive :: "LegionMessage option \<Rightarrow> int \<Rightarrow> bool \<Rightarrow> Node \<Rightarrow> Node" where
  "nodeReceive data now hasPlugin n =
     (let r = socketOnMessage data now (svc n)
      in deliver (observerCalls (snd r)) now hasPlugin (absorb (snd r) (n\<lparr>svc := fst r\<rparr>)))"

text \<open>
  The operator presses the shutter while not recording: \<^verbatim>\<open>startRecording()\<close> of the
  current render.
\<close>

definition nodeStart :: "int \<Rightarrow> bool \<Rightarrow> Node \<Rightarrow> Node" where
  "nodeStart now hasPlugin n =
     (let r = startRecording True now hasPlugin (svc n) (closureOf (cam n)) (cam n)
      in absorb (snd r) (n\<lparr>cam := fst r\<rparr>))"

text \<open>A direct \<^verbatim>\<open>legionService.sendCommand\<close> call.\<close>

definition nodeSend :: "MsgType \<Rightarrow> Payload option \<Rightarrow> int \<Rightarrow> bool \<Rightarrow> Node \<Rightarrow> Node" where
  "nodeSend t pl now hasPlugin n = absorb (sendCommand t pl now hasPlugin (svc n)) n"

text \<open>
  The fleet dashboard's global start and stop (\<^verbatim>\<open>Dashboard.handleGlobalStart\<close>,
  \<^verbatim>\<open>handleGlobalStop\<close>): they only call \<^verbatim>\<open>sendCommand\<close>; the dashboard's own
  \<^verbatim>\<open>isSyncing\<close> flag is display state.
\<close>

definition handleGlobalStart :: "int \<Rightarrow> bool \<Rightarrow> Node \<Rightarrow> Node" where
  "handleGlobalStart now hasPlugin n =
     nodeSend START_REC (Some (emptyPayload\<lparr>pl_delay := Some 1000\<rparr>)) now hasPlugin n"

definition handleGlobalStop :: "int \<Rightarrow> bool \<Rightarrow> Node \<Rightarrow> Node" where
  "handleGlobalStop now hasPlugin n = nodeSend STOP_REC None now hasPlugin n"

text \<open>The event loop runs the pending timeout at position \<open>i\<close>.\<close>

fun runTask :: "Task \<Rightarrow> int \<Rightarrow> bool \<Rightarrow> Node \<Rightarrow> Node" where
  "runTask (Loopback msg) now hasPlugin n =
     (let es = runLoopback msg (svc n)
      in deliver (observerCalls es) now hasPlugin (absorb es n))"
| "runTask DelayedStart now hasPlugin n =
     (let r = delayedStart now hasPlugin (svc n) (cam n)
      in absorb (snd r) (n\<lparr>cam := fst r\<rparr>))"
| "runTask HeartbeatTick now hasPlugin n =
     (let r = heartbeatTick now hasPlugin now (svc n)
      in absorb (snd r) (n\<lparr>svc := fst r\<rparr>))"

definition nodeFire :: "nat \<Rightarrow> int \<Rightarrow> bool \<Rightarrow> Node \<Rightarrow> Node" where
  "nodeFire i now hasPlugin n =
     (if i < length (timeouts n)
      then runTask (fst (timeouts n ! i)) now hasPlugin
             (n\<lparr>timeouts := take i (timeouts n) @ drop (Suc i) (timeouts n)\<rparr>)
      else n)"

text \<open>A render completes and its effects run.\<close>

definition nodeRerender :: "Node \<Rightarrow> Node" where
  "nodeRerender n = n\<lparr>cam := rerender (cam n)\<rparr>"

text \<open>
  The effect with dependency \<^verbatim>\<open>[isLegionMode]\<close>, run by the render in which the mode became
  Legion Link: it registers the telemetry observer and the message handler, which keeps
  this render's functions.
\<close>

definition legionEffect :: "nat \<Rightarrow> nat \<Rightarrow> Node \<Rightarrow> Node" where
  "legionEffect cbT cbM n =
     (if isLegionMode (cam n)
      then n\<lparr>svc := fst (onMessage cbM (fst (onTelemetryUpdate cbT (svc n)))),
             cam := (cam n)\<lparr>handler := closureOf (cam n)\<rparr>\<rparr>
      else n)"

text \<open>\<^verbatim>\<open>getUserMedia\<close> resolves and \<^verbatim>\<open>setStream(s)\<close> stores the stream.\<close>

definition streamReady :: "Node \<Rightarrow> Node" where
  "streamReady n = n\<lparr>cam := (cam n)\<lparr>stream := True\<rparr>\<rparr>"

section \<open>The service as a transition system\<close>

text \<open>
  Everything that can happen to a \<^verbatim>\<open>LegionService\<close>: calls of its public methods, and the
  callbacks it installed (socket handlers, the heartbeat interval, the loopback timer).
\<close>

datatype Event =
  Initialize LegionRole ConnectivityProtocol "string option" bool nat
  | SocketOpened ConnectivityProtocol int bool nat
  | SocketData "LegionMessage option" int
  | SocketClosed
  | IntervalFired int bool int
  | LoopbackFired LegionMessage
  | SendCommand MsgType "Payload option" int bool
  | OnMessage nat
  | UnsubscribeMessage
  | OnTelemetryUpdate nat
  | UnsubscribeTelemetry
  | StartHeartbeat nat
  | StopHeartbeat

fun step :: "Event \<Rightarrow> LegionService \<Rightarrow> LegionService" where
  "step (Initialize r p ip ctorThrows h) s = fst (snd (initialize r p ip ctorThrows h s))"
| "step (SocketOpened p now hasPlugin h) s = fst (socketOnOpen p now hasPlugin h s)"
| "step (SocketData d now) s = fst (socketOnMessage d now s)"
| "step SocketClosed s =
     (case socket s of None \<Rightarrow> s | Some w \<Rightarrow> s\<lparr>socket := Some (w\<lparr>readyState := CLOSED\<rparr>)\<rparr>)"
| "step (IntervalFired sendTime hasPlugin now) s =
     (if truthyHandle (heartbeatInterval s) then fst (heartbeatTick sendTime hasPlugin now s) else s)"
| "step (LoopbackFired msg) s = s"
| "step (SendCommand t pl now hasPlugin) s = s"
| "step (OnMessage cb) s = fst (onMessage cb s)"
| "step UnsubscribeMessage s = snd (onMessage 0 s) s"
| "step (OnTelemetryUpdate cb) s = fst (onTelemetryUpdate cb s)"
| "step UnsubscribeTelemetry s = snd (onTelemetryUpdate 0 s) s"
| "step (StartHeartbeat h) s = fst (startHeartbeat h s)"
| "step StopHeartbeat s = fst (stopHeartbeat s)"

fun run :: "Event list \<Rightarrow> LegionService \<Rightarrow> LegionService" where
  "run [] s = s"
| "run (e # es) s = run es (step e s)"

text \<open>A clock sample: a SYNC or HEARTBEAT frame from another node.\<close>

fun syncSample :: "string \<Rightarrow> Event \<Rightarrow> bool" where
  "syncSample me (SocketData (Some msg) now) =
     (senderId msg \<noteq> me \<and> (mtype msg = SYNC \<or> mtype msg = HEARTBEAT))"
| "syncSample me e = False"

text \<open>A call of \<^verbatim>\<open>initialize\<close> with the CENTURION role.\<close>

fun fieldInit :: "Event \<Rightarrow> bool" where
  "fieldInit (Initialize r p ip ctorThrows h) = (r = CENTURION)"
| "fieldInit e = False"

text \<open>Whether a record has outlived the liveness timeout at \<open>now\<close>.\<close>

definition expired :: "int \<Rightarrow> string \<times> DeviceTelemetry \<Rightarrow> bool" where
  "expired now kd = (now - lastPing (snd kd) > 15000)"

section \<open>Concrete devices\<close>

text \<open>
  A field node \<open>node-a\<close> with an open socket and a commander \<open>legate\<close>, both with the
  component's observers registered and a camera stream, and messages from a peer
  \<open>node-b\<close>. The theorems below are instantiated on them.
\<close>

definition exFieldService :: LegionService where
  "exFieldService = (newLegionService ''node-a'')
     \<lparr>socket := Some \<lparr>url = ''ws://10.0.0.1:8080/legion'', readyState = OPEN\<rparr>,
      role := Some CENTURION, onMessageCallback := Some 1, onTelemetryCallback := Some 2,
      heartbeatInterval := Some 7\<rparr>"

definition exCommanderService :: LegionService where
  "exCommanderService = (newLegionService ''legate'')
     \<lparr>role := Some LEGATUS, onMessageCallback := Some 1, onTelemetryCallback := Some 2,
      heartbeatInterval := Some 7\<rparr>"

definition exCamera :: "LegionRole \<Rightarrow> CameraInterface" where
  "exCamera r = \<lparr>stream = True, mediaRecorderRef = False, isRecording = False,
     isRecordingRef = False, isLegionMode = True, legionRole = Some r,
     handler = \<lparr>cl_stream = True, cl_isLegionMode = True, cl_legionRole = Some r\<rparr>\<rparr>"

text \<open>
  A field node that entered Legion mode before its camera stream arrived: the service is
  connected, no observer is registered yet and the component holds no stream.
\<close>

definition exEarlyNode :: Node where
  "exEarlyNode =
     \<lparr>svc = exFieldService\<lparr>onMessageCallback := None, onTelemetryCallback := None\<rparr>,
      cam = \<lparr>stream = False, mediaRecorderRef = False, isRecording = False,
        isRecordingRef = False, isLegionMode = True, legionRole = Some CENTURION,
        handler = \<lparr>cl_stream = False, cl_isLegionMode = False, cl_legionRole = None\<rparr>\<rparr>,
      timeouts = [], trace = []\<rparr>"

definition exFieldNode :: Node where
  "exFieldNode = \<lparr>svc = exFieldService, cam = exCamera CENTURION, timeouts = [], trace = []\<rparr>"

definition exCommanderNode :: Node where
  "exCommanderNode = \<lparr>svc = exCommanderService, cam = exCamera LEGATUS, timeouts = [], trace = []\<rparr>"

definition exMsg :: "MsgType \<Rightarrow> int \<Rightarrow> Payload option \<Rightarrow> LegionMessage" where
  "exMsg t ts pl = \<lparr>mtype = t, timestamp = ts, senderId = ''node-b'', payload = pl\<rparr>"

definition exDelay :: "int \<Rightarrow> Payload option" where
  "exDelay d = Some (emptyPayload\<lparr>pl_delay := Some d\<rparr>)"

definition exHeartbeat :: "int \<Rightarrow> LegionMessage" where
  "exHeartbeat ts = exMsg HEARTBEAT ts
     (Some (emptyPayload\<lparr>pl_status := Some ONLINE, pl_name := Some ''Node_node'',
        pl_protocol := Some WIFI\<rparr>))"

definition exHandshake :: "int \<Rightarrow> LegionMessage" where
  "exHandshake ts = exMsg HANDSHAKE ts
     (Some (emptyPayload\<lparr>pl_name := Some ''Node_node'', pl_protocol := Some WIFI\<rparr>))"

definition exDevice :: "string \<Rightarrow> int \<Rightarrow> string \<times> DeviceTelemetry" where
  "exDevice k t = (k, mkDevice \<lparr>mtype = HANDSHAKE, timestamp = t, senderId = k, payload = None\<rparr> t)"

definition exTracker :: LegionService where
  "exTracker = exFieldService\<lparr>devices := [exDevice ''node-b'' 0, exDevice ''node-c'' 9000]\<rparr>"

definition exQuietEvents :: "Event list" where
  "exQuietEvents =
     [SocketData (Some (exMsg START_REC 1200 (exDelay 500))) 1250,
      IntervalFired 5000 False 5001,
      SendCommand TELEMETRY None 6000 False,
      SocketData (Some ((exHeartbeat 6500)\<lparr>senderId := ''node-a''\<rparr>)) 7000,
      SocketData None 7500]"

definition exCommanderEvents :: "Event list" where
  "exCommanderEvents =
     [OnMessage 1,
      SendCommand START_REC (exDelay 1000) 100 True,
      LoopbackFired (exMsg START_REC 100 (exDelay 1000)),
      SocketData (Some (exHeartbeat 1000)) 1040,
      IntervalFired 5000 True 5001,
      Initialize LEGATUS BLUETOOTH None False 8]"

text \<open>A field node that handshakes once and then only sends heartbeats, and a sweep.\<close>

definition exHeartbeatOnlyEvents :: "Event list" where
  "exHeartbeatOnlyEvents =
     [SocketData (Some (exHandshake 0)) 10,
      SocketData (Some (exHeartbeat 5000)) 5010,
      SocketData (Some (exHeartbeat 10000)) 10010,
      SocketData (Some (exHeartbeat 15000)) 15010,
      IntervalFired 15011 False 15011]"

section \<open>Unfolding bundles and basic facts\<close>

lemmas ex_defs = exFieldService_def exCommanderService_def exCamera_def exFieldNode_def
  exCommanderNode_def exEarlyNode_def exMsg_def exDevice_def exDelay_def exHeartbeat_def exHandshake_def
  exTracker_def exQuietEvents_def exCommanderEvents_def exHeartbeatOnlyEvents_def
  newLegionService_def emptyPayload_def

lemmas svc_defs = sendCommand_def mkMessage_def socketOpen_def runLoopback_def notifyTelemetry_def
  getSynchronizedTime_def getConnectedDevices_def handleMessage_def mkDevice_def
  startHeartbeat_def stopHeartbeat_def heartbeatTick_def sweep_def heartbeatPayload_def
  nodeName_def initialize_def socketUrl_def socketOnOpen_def socketOnMessage_def
  handshakePayload_def onMessage_def onTelemetryUpdate_def

lemmas node_defs = startRecording_def stopRecording_def delayOf_def messageHandler_def
  delayedStart_def absorb_def nodeReceive_def nodeStart_def nodeFire_def nodeSend_def
  rerender_def nodeRerender_def closureOf_def handleGlobalStart_def handleGlobalStop_def
  legionEffect_def streamReady_def

lemma scheduled_append: "scheduled (xs @ ys) = scheduled xs @ scheduled ys"
  by (induction xs rule: scheduled.induct) simp_all

lemma observerCalls_append: "observerCalls (xs @ ys) = observerCalls xs @ observerCalls ys"
  by (induction xs rule: observerCalls.induct) simp_all

lemma messageHandler_own:
  "senderId msg = deviceId s \<Longrightarrow> messageHandler msg now hp s c = (c, [])"
  by (simp add: messageHandler_def)


section \<open>Observer registration\<close>

text \<open>
  C10. Each of \<^verbatim>\<open>onMessage\<close> and \<^verbatim>\<open>onTelemetryUpdate\<close> has one slot: a registration
  replaces the callback held there (whatever the state was), and an unsubscribe function
  empties the slot even when the callback in it was registered after that function was
  made.
\<close>

theorem single_observer_slot:
  "onMessageCallback (fst (onMessage cb2 (fst (onMessage cb1 s)))) = Some cb2
   \<and> onTelemetryCallback (fst (onTelemetryUpdate cb2 (fst (onTelemetryUpdate cb1 s)))) = Some cb2
   \<and> onMessageCallback (snd (onMessage cb1 s) (fst (onMessage cb2 (fst (onMessage cb1 s))))) = None
   \<and> onTelemetryCallback
        (snd (onTelemetryUpdate cb1 s) (fst (onTelemetryUpdate cb2 (fst (onTelemetryUpdate cb1 s)))))
       = None
   \<and> onMessageCallback (snd (onMessage cb1 s0) s') = None
   \<and> onTelemetryCallback (snd (onTelemetryUpdate cb1 s0) s') = None"
  by (simp add: onMessage_def onTelemetryUpdate_def)

section \<open>Clock synchronisation\<close>

lemma step_deviceId: "deviceId (step e s) = deviceId s"
  by (cases e)
     (auto simp: initialize_def stopHeartbeat_def startHeartbeat_def socketOnOpen_def
        socketOnMessage_def handleMessage_def heartbeatTick_def sweep_def onMessage_def
        onTelemetryUpdate_def Let_def split: option.splits if_splits)

lemma step_syncOffset:
  "\<not> syncSample (deviceId s) e \<Longrightarrow> syncOffset (step e s) = syncOffset s"
  by (cases e)
     (auto simp: initialize_def stopHeartbeat_def startHeartbeat_def socketOnOpen_def
        socketOnMessage_def handleMessage_def heartbeatTick_def sweep_def onMessage_def
        onTelemetryUpdate_def Let_def split: option.splits if_splits)

lemma run_syncOffset:
  "\<forall>e \<in> set es. \<not> syncSample (deviceId s) e \<Longrightarrow> syncOffset (run es s) = syncOffset s"
  by (induction es arbitrary: s) (simp_all add: step_deviceId step_syncOffset)

text \<open>
  C5. When a SYNC or HEARTBEAT message from another node, with origin timestamp
  \<open>timestamp msg\<close>, is handled at local time \<open>R\<close>, the stored offset becomes
  \<open>R - timestamp msg\<close> whatever it was before (no averaging, no rejection); and through
  any further events of the service that are not such a message, the synchronised time
  read at local clock \<open>t\<close> is \<open>t - (R - timestamp msg)\<close>.
\<close>

theorem offset_last_writer_wins:
  assumes "senderId msg \<noteq> deviceId s"
    and "mtype msg = SYNC \<or> mtype msg = HEARTBEAT"
    and "\<forall>e \<in> set es. \<not> syncSample (deviceId s) e"
  shows "syncOffset (fst (handleMessage msg R s)) = R - timestamp msg
       \<and> getSynchronizedTime t (run es (fst (handleMessage msg R s))) = t - (R - timestamp msg)"
proof -
  let ?s = "fst (handleMessage msg R s)"
  have off: "syncOffset ?s = R - timestamp msg"
    using assms(1,2) by (auto simp: handleMessage_def Let_def)
  have dev: "deviceId ?s = deviceId s"
    by (auto simp: handleMessage_def Let_def)
  have "syncOffset (run es ?s) = syncOffset ?s"
    using assms(3) by (intro run_syncOffset) (simp add: dev)
  with off show ?thesis by (simp add: getSynchronizedTime_def)
qed

theorem offset_last_writer_wins_witness:
  "senderId (exHeartbeat 1000) \<noteq> deviceId exFieldService
   \<and> (mtype (exHeartbeat 1000) = SYNC \<or> mtype (exHeartbeat 1000) = HEARTBEAT)
   \<and> list_all (\<lambda>e. \<not> syncSample (deviceId exFieldService) e) exQuietEvents
   \<and> syncOffset (fst (handleMessage (exHeartbeat 1000) 1040 exFieldService)) = 40
   \<and> getSynchronizedTime 9000
        (run exQuietEvents (fst (handleMessage (exHeartbeat 1000) 1040 exFieldService))) = 8960"
proof -
  have h1: "senderId (exHeartbeat 1000) \<noteq> deviceId exFieldService"
    by (simp add: ex_defs)
  have h2: "mtype (exHeartbeat 1000) = SYNC \<or> mtype (exHeartbeat 1000) = HEARTBEAT"
    by (simp add: ex_defs)
  have h3: "\<forall>e \<in> set exQuietEvents. \<not> syncSample (deviceId exFieldService) e"
    by (simp add: ex_defs)
  have t: "timestamp (exHeartbeat 1000) = 1000"
    by (simp add: ex_defs)
  from offset_last_writer_wins [OF h1 h2 h3, of 1040 9000] h1 h2 h3
  show ?thesis by (simp add: t list_all_iff)
qed

lemma step_commander_inv:
  "\<not> fieldInit e \<Longrightarrow> socket s = None \<and> syncOffset s = 0
     \<Longrightarrow> socket (step e s) = None \<and> syncOffset (step e s) = 0"
  by (cases e)
     (auto simp: initialize_def stopHeartbeat_def startHeartbeat_def socketOnOpen_def
        socketOnMessage_def heartbeatTick_def sweep_def onMessage_def
        onTelemetryUpdate_def Let_def split: option.splits if_splits)

lemma run_commander_inv:
  "\<forall>e \<in> set es. \<not> fieldInit e \<Longrightarrow> socket s = None \<and> syncOffset s = 0
     \<Longrightarrow> socket (run es s) = None \<and> syncOffset (run es s) = 0"
proof (induction es arbitrary: s)
  case Nil
  then show ?case by simp
next
  case (Cons e es)
  from Cons.prems have "socket (step e s) = None \<and> syncOffset (step e s) = 0"
    by (intro step_commander_inv) simp_all
  with Cons show ?case by simp
qed

text \<open>
  C6. A new service has offset 0. After it is initialised with the LEGATUS role, and after
  any further sequence of events in which it is never initialised as a CENTURION (method
  calls, its own heartbeat ticks and loopback deliveries, further LEGATUS initialisations;
  frames cannot arrive, since a commander owns no socket), the offset is still 0 and the
  synchronised time equals the local clock reading.
\<close>

theorem commander_offset_zero:
  assumes "\<forall>e \<in> set es. \<not> fieldInit e"
  shows "syncOffset (newLegionService uuid) = 0
       \<and> syncOffset (run (Initialize LEGATUS p ip ctorThrows h # es) (newLegionService uuid)) = 0
       \<and> getSynchronizedTime t
            (run (Initialize LEGATUS p ip ctorThrows h # es) (newLegionService uuid)) = t"
proof -
  have "\<forall>e \<in> set (Initialize LEGATUS p ip ctorThrows h # es). \<not> fieldInit e"
    using assms by simp
  moreover have "socket (newLegionService uuid) = None \<and> syncOffset (newLegionService uuid) = 0"
    by (simp add: newLegionService_def)
  ultimately have
    "syncOffset (run (Initialize LEGATUS p ip ctorThrows h # es) (newLegionService uuid)) = 0"
    using run_commander_inv by blast
  then show ?thesis by (simp add: getSynchronizedTime_def newLegionService_def)
qed

theorem commander_offset_zero_witness:
  "list_all (\<lambda>e. \<not> fieldInit e) exCommanderEvents
   \<and> syncOffset (run (Initialize LEGATUS WIFI None False 7 # exCommanderEvents)
        (newLegionService ''legate'')) = 0
   \<and> getSynchronizedTime 12345 (run (Initialize LEGATUS WIFI None False 7 # exCommanderEvents)
        (newLegionService ''legate'')) = 12345"
proof -
  have h: "\<forall>e \<in> set exCommanderEvents. \<not> fieldInit e"
    by (simp add: exCommanderEvents_def)
  from commander_offset_zero [OF h, of "''legate''" WIFI None False 7 12345] h
  show ?thesis by (simp add: list_all_iff)
qed

section \<open>Membership sweep\<close>

lemma sweepLoop_fst:
  "fst (sweepLoop now xs (m, c))
     = filter (\<lambda>kd. \<not> (\<exists>x \<in> set xs. fst x = fst kd \<and> expired now x)) m"
proof (induction xs arbitrary: m c)
  case Nil
  then show ?case by simp
next
  case (Cons x xs)
  obtain k d where x: "x = (k, d)" by (cases x)
  show ?case
  proof (cases "now - lastPing d > 15000")
    case True
    have "filter (\<lambda>kd. \<not> (\<exists>x \<in> set xs. fst x = fst kd \<and> expired now x)) (AList.delete k m)
        = filter (\<lambda>kd. \<not> (\<exists>x \<in> set ((k, d) # xs). fst x = fst kd \<and> expired now x)) m"
      using True by (induction m) (auto simp: expired_def)
    with True show ?thesis by (simp add: x Cons.IH)
  next
    case False
    then show ?thesis by (simp add: x Cons.IH expired_def)
  qed
qed

lemma sweepLoop_snd:
  "snd (sweepLoop now xs (m, c)) = (c \<or> (\<exists>x \<in> set xs. expired now x))"
proof (induction xs arbitrary: m c)
  case Nil
  then show ?case by simp
next
  case (Cons x xs)
  obtain k d where x: "x = (k, d)" by (cases x)
  show ?case by (simp add: x Cons.IH expired_def)
qed

lemma sweep_filter:
  assumes "distinct (map fst m)"
  shows "fst (sweepLoop now m (m, False)) = filter (\<lambda>kd. \<not> expired now kd) m"
proof -
  have "\<And>kd. kd \<in> set m \<Longrightarrow> (\<exists>x \<in> set m. fst x = fst kd \<and> expired now x) = expired now kd"
    using assms by (metis eq_key_imp_eq_value prod.collapse)
  then show ?thesis
    unfolding sweepLoop_fst by (intro filter_cong) auto
qed

text \<open>
  C7. The interval that \<^verbatim>\<open>startHeartbeat\<close> registers has period 5000 ms and one callback,
  which first sends the HEARTBEAT and then sweeps, so sweep and heartbeat share the cadence.
  A sweep at \<open>now\<close> of a map with one entry per key keeps, in order, exactly the records
  with \<open>now - lastPing \<le> 15000\<close> and removes the others. It calls \<^verbatim>\<open>notifyTelemetry\<close> if
  and only if a record was removed: with a telemetry observer registered, the observer is
  called (with the records left) during the tick exactly when some record was removed.
\<close>

theorem sweep_on_heartbeat_tick:
  assumes "distinct (map fst (devices s))" and "onTelemetryCallback s = Some cb"
  shows "snd (startHeartbeat h (s\<lparr>heartbeatInterval := None\<rparr>)) = [SetInterval HeartbeatTick 5000 h]
       \<and> heartbeatTick sendTime hasPlugin now s
           = (fst (sweep now s),
              sendCommand HEARTBEAT (Some (heartbeatPayload s)) sendTime hasPlugin s @ snd (sweep now s))
       \<and> devices (fst (sweep now s))
           = filter (\<lambda>kd. \<not> now - lastPing (snd kd) > 15000) (devices s)
       \<and> snd (sweep now s)
           = (if \<exists>kd \<in> set (devices s). now - lastPing (snd kd) > 15000
              then notifyTelemetry (fst (sweep now s)) else [])
       \<and> (CallTelemetryObserver cb (getConnectedDevices (fst (sweep now s)))
             \<in> set (snd (heartbeatTick sendTime hasPlugin now s)))
           = (\<exists>kd \<in> set (devices s). now - lastPing (snd kd) > 15000)"
proof -
  have a: "snd (startHeartbeat h (s\<lparr>heartbeatInterval := None\<rparr>)) = [SetInterval HeartbeatTick 5000 h]"
    by (simp add: startHeartbeat_def)
  have b: "heartbeatTick sendTime hasPlugin now s
           = (fst (sweep now s),
              sendCommand HEARTBEAT (Some (heartbeatPayload s)) sendTime hasPlugin s @ snd (sweep now s))"
    by (simp add: heartbeatTick_def Let_def)
  have c: "devices (fst (sweep now s))
           = filter (\<lambda>kd. \<not> now - lastPing (snd kd) > 15000) (devices s)"
    using sweep_filter [OF assms(1), of now] by (simp add: sweep_def Let_def expired_def)
  have d: "snd (sweep now s)
           = (if \<exists>kd \<in> set (devices s). now - lastPing (snd kd) > 15000
              then notifyTelemetry (fst (sweep now s)) else [])"
    by (simp add: sweep_def Let_def sweepLoop_snd expired_def)
  have e: "CallTelemetryObserver cb ds \<notin> set (sendCommand t pl st hp s)" for ds t pl st hp
    by (simp add: sendCommand_def Let_def)
  have f: "onTelemetryCallback (fst (sweep now s)) = Some cb"
    using assms(2) by (simp add: sweep_def Let_def)
  have g: "(CallTelemetryObserver cb (getConnectedDevices (fst (sweep now s)))
               \<in> set (snd (heartbeatTick sendTime hasPlugin now s)))
            = (\<exists>kd \<in> set (devices s). now - lastPing (snd kd) > 15000)"
    unfolding b using e f by (simp add: d notifyTelemetry_def getConnectedDevices_def)
  from a b c d g show ?thesis by blast
qed

theorem sweep_on_heartbeat_tick_witness:
  "distinct (map fst (devices exTracker)) \<and> onTelemetryCallback exTracker = Some 2
   \<and> devices (fst (sweep 20000 exTracker)) = [exDevice ''node-c'' 9000]
   \<and> snd (sweep 20000 exTracker) = [CallTelemetryObserver 2 [snd (exDevice ''node-c'' 9000)]]
   \<and> devices (fst (sweep 15000 exTracker)) = devices exTracker
   \<and> snd (sweep 15000 exTracker) = []"
proof -
  have h: "distinct (map fst (devices exTracker))"
    by (simp add: ex_defs)
  have d: "devices exTracker = [exDevice ''node-b'' 0, exDevice ''node-c'' 9000]"
    by (simp add: exTracker_def)
  have cb: "onTelemetryCallback exTracker = Some 2"
    by (simp add: ex_defs)
  have lp: "lastPing (snd (exDevice k t)) = t" for k t
    by (simp add: exDevice_def mkDevice_def)
  note a = sweep_on_heartbeat_tick [OF h cb, of 7 0 False 20000]
  note b = sweep_on_heartbeat_tick [OF h cb, of 7 0 False 15000]
  have a3: "devices (fst (sweep 20000 exTracker)) = [exDevice ''node-c'' 9000]"
    using a by (simp add: d lp)
  have f: "onTelemetryCallback (fst (sweep 20000 exTracker)) = Some 2"
    using cb by (simp add: sweep_def Let_def)
  have a4: "snd (sweep 20000 exTracker) = [CallTelemetryObserver 2 [snd (exDevice ''node-c'' 9000)]]"
    using a by (simp add: d lp notifyTelemetry_def f a3)
  have b3: "devices (fst (sweep 15000 exTracker)) = devices exTracker"
    using b by (simp add: d lp)
  have b4: "snd (sweep 15000 exTracker) = []"
    using b by (simp add: d lp)
  from h cb a3 a4 b3 b4 show ?thesis by simp
qed

section \<open>Command dispatch and loopback\<close>

text \<open>
  C9. On a commander (LEGATUS role, no open socket) \<^verbatim>\<open>sendCommand\<close> makes no call of the
  message observer: the component's state and the observer calls made so far are as before
  the dispatch, and the loopback is in the timer queue with delay 0. Only when the event
  loop later runs that timer does the registered observer receive the message.
\<close>

theorem loopback_is_deferred:
  assumes "role (svc n) = Some LEGATUS" and "\<not> socketOpen (svc n)"
    and "onMessageCallback (svc n) = Some cb"
  shows "observerCalls (sendCommand t pl now hp (svc n)) = []
       \<and> cam (nodeSend t pl now hp n) = cam n
       \<and> observerCalls (trace (nodeSend t pl now hp n)) = observerCalls (trace n)
       \<and> timeouts (nodeSend t pl now hp n) = timeouts n @ [(Loopback (mkMessage t pl now (svc n)), 0)]
       \<and> observerCalls (trace (nodeFire (length (timeouts n)) now' hp' (nodeSend t pl now hp n)))
           = observerCalls (trace n) @ [mkMessage t pl now (svc n)]"
proof -
  let ?msg = "mkMessage t pl now (svc n)"
  let ?es = "sendCommand t pl now hp (svc n)"
  have calls: "observerCalls ?es = []"
    by (simp add: sendCommand_def Let_def)
  have sched: "scheduled ?es = [(Loopback ?msg, 0)]"
    using assms(1,2) by (simp add: sendCommand_def Let_def)
  have own: "senderId ?msg = deviceId (svc n)"
    by (simp add: mkMessage_def)
  have send: "nodeSend t pl now hp n
      = n\<lparr>timeouts := timeouts n @ [(Loopback ?msg, 0)], trace := trace n @ ?es\<rparr>"
    by (simp add: nodeSend_def absorb_def sched)
  have fire: "nodeFire (length (timeouts n)) now' hp' (nodeSend t pl now hp n)
      = n\<lparr>trace := trace n @ ?es @ [CallMessageObserver cb ?msg]\<rparr>"
    unfolding send using assms(3) own
    by (simp add: nodeFire_def nth_append runLoopback_def absorb_def messageHandler_own)
  show ?thesis
    unfolding fire by (simp add: send calls observerCalls_append)
qed

theorem loopback_is_deferred_witness:
  "role (svc exCommanderNode) = Some LEGATUS \<and> \<not> socketOpen (svc exCommanderNode)
   \<and> onMessageCallback (svc exCommanderNode) = Some 1
   \<and> observerCalls (trace (nodeSend START_REC (exDelay 1000) 100 True exCommanderNode)) = []
   \<and> timeouts (nodeSend START_REC (exDelay 1000) 100 True exCommanderNode)
       = [(Loopback \<lparr>mtype = START_REC, timestamp = 100, senderId = ''legate'',
             payload = exDelay 1000\<rparr>, 0)]
   \<and> observerCalls (trace (nodeFire 0 101 True (nodeSend START_REC (exDelay 1000) 100 True exCommanderNode)))
       = [\<lparr>mtype = START_REC, timestamp = 100, senderId = ''legate'', payload = exDelay 1000\<rparr>]"
proof -
  have h1: "role (svc exCommanderNode) = Some LEGATUS"
    by (simp add: ex_defs)
  have h2: "\<not> socketOpen (svc exCommanderNode)"
    by (simp add: ex_defs socketOpen_def)
  have h3: "onMessageCallback (svc exCommanderNode) = Some 1"
    by (simp add: ex_defs)
  have m: "mkMessage START_REC (exDelay 1000) 100 (svc exCommanderNode)
      = \<lparr>mtype = START_REC, timestamp = 100, senderId = ''legate'', payload = exDelay 1000\<rparr>"
    by (simp add: mkMessage_def ex_defs)
  have e: "timeouts exCommanderNode = [] \<and> trace exCommanderNode = []"
    by (simp add: ex_defs)
  from loopback_is_deferred [OF h1 h2 h3, of START_REC "exDelay 1000" 100 True 101 True] h1 h2 h3
  show ?thesis by (simp add: m e)
qed

section \<open>Synchronised start\<close>

text \<open>
  What the handler does with a START_REC message from another node: one timer, with delay
  \<open>max 0 ((timestamp + delay) - getSynchronizedTime)\<close>, and no change to the component.
\<close>

lemma start_rec_wait:
  assumes "mtype msg = START_REC" and "senderId msg \<noteq> deviceId (svc n)"
    and "socket (svc n) = Some w" and "onMessageCallback (svc n) = Some cb"
  shows "nodeReceive (Some msg) now hp n
      = n\<lparr>timeouts := timeouts n @
             [(DelayedStart, max 0 ((timestamp msg + delayOf msg) - getSynchronizedTime now (svc n)))],
           trace := trace n @
             [CallMessageObserver cb msg,
              SetTimeout DelayedStart
                (max 0 ((timestamp msg + delayOf msg) - getSynchronizedTime now (svc n)))]\<rparr>"
proof -
  let ?w = "max 0 ((timestamp msg + delayOf msg) - getSynchronizedTime now (svc n))"
  have h: "messageHandler msg now hp (svc n) (cam n) = (cam n, [SetTimeout DelayedStart ?w])"
    using assms(1,2) by (simp add: messageHandler_def)
  have hm: "handleMessage msg now (svc n) = (svc n, [CallMessageObserver cb msg])"
    using assms(1,2,4) by (simp add: handleMessage_def Let_def)
  show ?thesis
    using assms(3) by (simp add: nodeReceive_def socketOnMessage_def Let_def hm absorb_def h)
qed

text \<open>
  C4 on the code. The field node \<open>node-a\<close> receives two START_REC messages that aim at
  the same instant 1000: the dashboard's (sent at 0, delay 1000, received at 50, so due in
  950 ms) and the shutter's (sent at 500, delay 500, received at 560, so due in 440 ms).
  The first timer starts the recorder and sets \<^verbatim>\<open>isRecording\<close>; \<^verbatim>\<open>isRecordingRef\<close> is
  still unset, because only the effect after the next render writes it. The second timer
  fires before that render, passes the guard and starts a second recorder while the first
  recording is in progress. Had the render come in between, the second timer would have
  done nothing.
\<close>

theorem delayed_start_not_idempotent:
  "timeouts (nodeReceive (Some (exMsg START_REC 500 (exDelay 500))) 560 False
      (nodeReceive (Some (exMsg START_REC 0 (exDelay 1000))) 50 False exFieldNode))
     = [(DelayedStart, 950), (DelayedStart, 440)]
   \<and> isRecording (cam (nodeFire 0 1000 False
        (nodeReceive (Some (exMsg START_REC 500 (exDelay 500))) 560 False
          (nodeReceive (Some (exMsg START_REC 0 (exDelay 1000))) 50 False exFieldNode))))
   \<and> \<not> isRecordingRef (cam (nodeFire 0 1000 False
        (nodeReceive (Some (exMsg START_REC 500 (exDelay 500))) 560 False
          (nodeReceive (Some (exMsg START_REC 0 (exDelay 1000))) 50 False exFieldNode))))
   \<and> trace (nodeFire 0 1000 False (nodeFire 0 1000 False
        (nodeReceive (Some (exMsg START_REC 500 (exDelay 500))) 560 False
          (nodeReceive (Some (exMsg START_REC 0 (exDelay 1000))) 50 False exFieldNode))))
     = [CallMessageObserver 1 (exMsg START_REC 0 (exDelay 1000)),
        SetTimeout DelayedStart 950,
        CallMessageObserver 1 (exMsg START_REC 500 (exDelay 500)),
        SetTimeout DelayedStart 440,
        RecorderStart,
        RecorderStart]
   \<and> trace (nodeFire 0 1000 False (nodeRerender (nodeFire 0 1000 False
        (nodeReceive (Some (exMsg START_REC 500 (exDelay 500))) 560 False
          (nodeReceive (Some (exMsg START_REC 0 (exDelay 1000))) 50 False exFieldNode)))))
     = [CallMessageObserver 1 (exMsg START_REC 0 (exDelay 1000)),
        SetTimeout DelayedStart 950,
        CallMessageObserver 1 (exMsg START_REC 500 (exDelay 500)),
        SetTimeout DelayedStart 440,
        RecorderStart]"
  by (simp add: ex_defs node_defs svc_defs)

section \<open>Global start on the commander\<close>

lemma loopback_dropped:
  assumes "role (svc n) = Some LEGATUS" and "\<not> socketOpen (svc n)"
    and "onMessageCallback (svc n) = Some cb"
  shows "nodeSend t pl now hp n
      = n\<lparr>timeouts := timeouts n @ [(Loopback (mkMessage t pl now (svc n)), 0)],
           trace := trace n @ sendCommand t pl now hp (svc n)\<rparr>"
    and "nodeFire (length (timeouts n)) now' hp' (nodeSend t pl now hp n)
      = n\<lparr>trace := trace n @ sendCommand t pl now hp (svc n)
             @ [CallMessageObserver cb (mkMessage t pl now (svc n))]\<rparr>"
proof -
  let ?msg = "mkMessage t pl now (svc n)"
  let ?es = "sendCommand t pl now hp (svc n)"
  have sched: "scheduled ?es = [(Loopback ?msg, 0)]"
    using assms(1,2) by (simp add: sendCommand_def Let_def)
  have own: "senderId ?msg = deviceId (svc n)"
    by (simp add: mkMessage_def)
  show send: "nodeSend t pl now hp n
      = n\<lparr>timeouts := timeouts n @ [(Loopback ?msg, 0)], trace := trace n @ ?es\<rparr>"
    by (simp add: nodeSend_def absorb_def sched)
  show "nodeFire (length (timeouts n)) now' hp' (nodeSend t pl now hp n)
      = n\<lparr>trace := trace n @ ?es @ [CallMessageObserver cb ?msg]\<rparr>"
    unfolding send using assms(3) own
    by (simp add: nodeFire_def nth_append runLoopback_def absorb_def messageHandler_own)
qed

lemma sendCommand_no_recorder:
  "RecorderStart \<notin> set (sendCommand t pl now hp s)"
  by (simp add: sendCommand_def Let_def)

text \<open>
  C1, as the code has it. On a commander with the component's observer registered, a
  global start never leads to a delayed local start: the loopback of START_REC is queued,
  reaches the observer on a later turn and is dropped there, because its sender is the
  commander itself; afterwards the component is as it was and no timer is pending.
  With the shutter (and a camera stream) the recorder is started and \<^verbatim>\<open>isRecording\<close> set
  inside \<^verbatim>\<open>startRecording\<close>, before START_REC with delay 500 is dispatched. With the
  dashboard's global start only START_REC with delay 1000 is dispatched: no recorder is
  started, neither at dispatch nor when the loopback arrives.
\<close>

theorem commander_global_start:
  assumes "role (svc n) = Some LEGATUS" and "\<not> socketOpen (svc n)"
    and "onMessageCallback (svc n) = Some cb"
    and "legionRole (cam n) = Some LEGATUS" and "isLegionMode (cam n)" and "stream (cam n)"
  shows "isRecording (cam (nodeStart now hp n))
       \<and> trace (nodeStart now hp n)
           = trace n @ RecorderStart #
               sendCommand START_REC (Some (emptyPayload\<lparr>pl_delay := Some 500\<rparr>)) now hp (svc n)
       \<and> timeouts (nodeStart now hp n)
           = timeouts n @
               [(Loopback (mkMessage START_REC (Some (emptyPayload\<lparr>pl_delay := Some 500\<rparr>)) now (svc n)), 0)]
       \<and> nodeFire (length (timeouts n)) now' hp' (nodeStart now hp n)
           = (nodeStart now hp n)
               \<lparr>timeouts := timeouts n,
                trace := trace (nodeStart now hp n) @
                  [CallMessageObserver cb
                     (mkMessage START_REC (Some (emptyPayload\<lparr>pl_delay := Some 500\<rparr>)) now (svc n))]\<rparr>
       \<and> handleGlobalStart now hp n
           = n\<lparr>timeouts := timeouts n @
                  [(Loopback (mkMessage START_REC (Some (emptyPayload\<lparr>pl_delay := Some 1000\<rparr>)) now (svc n)), 0)],
                trace := trace n @
                  sendCommand START_REC (Some (emptyPayload\<lparr>pl_delay := Some 1000\<rparr>)) now hp (svc n)\<rparr>
       \<and> RecorderStart \<notin> set (sendCommand START_REC (Some (emptyPayload\<lparr>pl_delay := Some 1000\<rparr>)) now hp (svc n))
       \<and> nodeFire (length (timeouts n)) now' hp' (handleGlobalStart now hp n)
           = n\<lparr>trace := trace n @
                  sendCommand START_REC (Some (emptyPayload\<lparr>pl_delay := Some 1000\<rparr>)) now hp (svc n)
                  @ [CallMessageObserver cb
                       (mkMessage START_REC (Some (emptyPayload\<lparr>pl_delay := Some 1000\<rparr>)) now (svc n))]\<rparr>"
proof -
  let ?pl = "Some (emptyPayload\<lparr>pl_delay := Some 500\<rparr>)"
  let ?msg = "mkMessage START_REC ?pl now (svc n)"
  let ?es = "sendCommand START_REC ?pl now hp (svc n)"
  let ?c = "(cam n)\<lparr>mediaRecorderRef := True, isRecording := True\<rparr>"
  have sr: "startRecording True now hp (svc n) (closureOf (cam n)) (cam n) = (?c, RecorderStart # ?es)"
    using assms(4,5,6) by (simp add: startRecording_def closureOf_def)
  have sched: "scheduled ?es = [(Loopback ?msg, 0)]"
    using assms(1,2) by (simp add: sendCommand_def Let_def)
  have own: "senderId ?msg = deviceId (svc n)"
    by (simp add: mkMessage_def)
  have start: "nodeStart now hp n
      = n\<lparr>cam := ?c, timeouts := timeouts n @ [(Loopback ?msg, 0)],
           trace := trace n @ RecorderStart # ?es\<rparr>"
    by (simp add: nodeStart_def sr absorb_def sched)
  have fire: "nodeFire (length (timeouts n)) now' hp' (nodeStart now hp n)
      = n\<lparr>cam := ?c, timeouts := timeouts n,
           trace := trace n @ RecorderStart # ?es @ [CallMessageObserver cb ?msg]\<rparr>"
    unfolding start using assms(3) own
    by (simp add: nodeFire_def nth_append runLoopback_def absorb_def messageHandler_own)
  have shutter: "isRecording (cam (nodeStart now hp n))
       \<and> trace (nodeStart now hp n) = trace n @ RecorderStart # ?es
       \<and> timeouts (nodeStart now hp n) = timeouts n @ [(Loopback ?msg, 0)]
       \<and> nodeFire (length (timeouts n)) now' hp' (nodeStart now hp n)
           = (nodeStart now hp n)
               \<lparr>timeouts := timeouts n,
                trace := trace (nodeStart now hp n) @ [CallMessageObserver cb ?msg]\<rparr>"
    unfolding fire by (simp add: start)
  have dash1: "handleGlobalStart now hp n
      = n\<lparr>timeouts := timeouts n @
             [(Loopback (mkMessage START_REC (Some (emptyPayload\<lparr>pl_delay := Some 1000\<rparr>)) now (svc n)), 0)],
           trace := trace n @
             sendCommand START_REC (Some (emptyPayload\<lparr>pl_delay := Some 1000\<rparr>)) now hp (svc n)\<rparr>"
    unfolding handleGlobalStart_def by (rule loopback_dropped(1) [OF assms(1,2,3)])
  have dash2: "nodeFire (length (timeouts n)) now' hp' (handleGlobalStart now hp n)
      = n\<lparr>trace := trace n @
             sendCommand START_REC (Some (emptyPayload\<lparr>pl_delay := Some 1000\<rparr>)) now hp (svc n)
             @ [CallMessageObserver cb
                  (mkMessage START_REC (Some (emptyPayload\<lparr>pl_delay := Some 1000\<rparr>)) now (svc n))]\<rparr>"
    unfolding handleGlobalStart_def by (rule loopback_dropped(2) [OF assms(1,2,3)])
  from shutter dash1 dash2 sendCommand_no_recorder show ?thesis by blast
qed

lemma exCommanderNode_facts:
  "role (svc exCommanderNode) = Some LEGATUS" "\<not> socketOpen (svc exCommanderNode)"
  "onMessageCallback (svc exCommanderNode) = Some 1"
  "legionRole (cam exCommanderNode) = Some LEGATUS" "isLegionMode (cam exCommanderNode)"
  "stream (cam exCommanderNode)" "timeouts exCommanderNode = []" "trace exCommanderNode = []"
  by (simp_all add: ex_defs socketOpen_def)

theorem commander_global_start_witness:
  "role (svc exCommanderNode) = Some LEGATUS \<and> \<not> socketOpen (svc exCommanderNode)
   \<and> onMessageCallback (svc exCommanderNode) = Some 1
   \<and> legionRole (cam exCommanderNode) = Some LEGATUS \<and> isLegionMode (cam exCommanderNode)
   \<and> stream (cam exCommanderNode)
   \<and> isRecording (cam (nodeStart 0 False exCommanderNode))
   \<and> timeouts (nodeFire 0 1 False (nodeStart 0 False exCommanderNode)) = []
   \<and> cam (nodeFire 0 1 False (nodeStart 0 False exCommanderNode))
       = cam (nodeStart 0 False exCommanderNode)
   \<and> cam (handleGlobalStart 0 False exCommanderNode) = cam exCommanderNode
   \<and> timeouts (nodeFire 0 1 False (handleGlobalStart 0 False exCommanderNode)) = []
   \<and> cam (nodeFire 0 1 False (handleGlobalStart 0 False exCommanderNode)) = cam exCommanderNode
   \<and> trace (nodeFire 0 1 False (handleGlobalStart 0 False exCommanderNode))
       = [SetTimeout (Loopback \<lparr>mtype = START_REC, timestamp = 0, senderId = ''legate'',
            payload = exDelay 1000\<rparr>) 0,
          CallMessageObserver 1 \<lparr>mtype = START_REC, timestamp = 0, senderId = ''legate'',
            payload = exDelay 1000\<rparr>]"
proof -
  have e: "sendCommand START_REC (Some (emptyPayload\<lparr>pl_delay := Some 1000\<rparr>)) 0 False
             (svc exCommanderNode)
      = [SetTimeout (Loopback \<lparr>mtype = START_REC, timestamp = 0, senderId = ''legate'',
            payload = exDelay 1000\<rparr>) 0]"
    "mkMessage START_REC (Some (emptyPayload\<lparr>pl_delay := Some 1000\<rparr>)) 0 (svc exCommanderNode)
      = \<lparr>mtype = START_REC, timestamp = 0, senderId = ''legate'', payload = exDelay 1000\<rparr>"
    by (simp_all add: ex_defs svc_defs)
  note th = commander_global_start [OF exCommanderNode_facts(1-6), of 0 False 1 False]
  have s1: "isRecording (cam (nodeStart 0 False exCommanderNode))"
    using th by simp
  have s2: "nodeFire 0 1 False (nodeStart 0 False exCommanderNode)
      = (nodeStart 0 False exCommanderNode)
          \<lparr>timeouts := [],
           trace := trace (nodeStart 0 False exCommanderNode) @
             [CallMessageObserver 1
                (mkMessage START_REC (Some (emptyPayload\<lparr>pl_delay := Some 500\<rparr>)) 0
                   (svc exCommanderNode))]\<rparr>"
    using th [THEN conjunct2, THEN conjunct2, THEN conjunct2, THEN conjunct1]
    by (simp add: exCommanderNode_facts)
  have d1: "handleGlobalStart 0 False exCommanderNode
      = exCommanderNode
          \<lparr>timeouts := [(Loopback \<lparr>mtype = START_REC, timestamp = 0, senderId = ''legate'',
              payload = exDelay 1000\<rparr>, 0)],
           trace := [SetTimeout (Loopback \<lparr>mtype = START_REC, timestamp = 0,
              senderId = ''legate'', payload = exDelay 1000\<rparr>) 0]\<rparr>"
    using th [THEN conjunct2, THEN conjunct2, THEN conjunct2, THEN conjunct2, THEN conjunct1]
    by (simp add: exCommanderNode_facts e)
  have d2: "nodeFire 0 1 False (handleGlobalStart 0 False exCommanderNode)
      = exCommanderNode
          \<lparr>trace := [SetTimeout (Loopback \<lparr>mtype = START_REC, timestamp = 0,
              senderId = ''legate'', payload = exDelay 1000\<rparr>) 0,
            CallMessageObserver 1 \<lparr>mtype = START_REC, timestamp = 0, senderId = ''legate'',
              payload = exDelay 1000\<rparr>]\<rparr>"
    using th [THEN conjunct2, THEN conjunct2, THEN conjunct2, THEN conjunct2, THEN conjunct2,
      THEN conjunct2]
    by (simp add: exCommanderNode_facts e)
  have c1: "cam (handleGlobalStart 0 False exCommanderNode) = cam exCommanderNode"
    by (simp add: d1)
  have c2: "timeouts (nodeFire 0 1 False (handleGlobalStart 0 False exCommanderNode)) = []"
    "cam (nodeFire 0 1 False (handleGlobalStart 0 False exCommanderNode)) = cam exCommanderNode"
    "trace (nodeFire 0 1 False (handleGlobalStart 0 False exCommanderNode))
       = [SetTimeout (Loopback \<lparr>mtype = START_REC, timestamp = 0, senderId = ''legate'',
            payload = exDelay 1000\<rparr>) 0,
          CallMessageObserver 1 \<lparr>mtype = START_REC, timestamp = 0, senderId = ''legate'',
            payload = exDelay 1000\<rparr>]"
    by (simp_all add: d2 exCommanderNode_facts)
  have c3: "timeouts (nodeFire 0 1 False (nodeStart 0 False exCommanderNode)) = []"
    "cam (nodeFire 0 1 False (nodeStart 0 False exCommanderNode))
       = cam (nodeStart 0 False exCommanderNode)"
    by (simp_all add: s2)
  from exCommanderNode_facts(1-6) s1 c1 c2 c3 show ?thesis by blast
qed

text \<open>
  The claim fails on the commander \<open>legate\<close>: the recording has begun when
  \<^verbatim>\<open>startRecording\<close> returns, and after the loopback timer has run no timer is pending.
\<close>

theorem commander_loopback_start_counterexample:
  "isRecording (cam (nodeStart 0 False exCommanderNode))
   \<and> trace (nodeStart 0 False exCommanderNode)
       = [RecorderStart,
          SetTimeout (Loopback \<lparr>mtype = START_REC, timestamp = 0, senderId = ''legate'',
            payload = exDelay 500\<rparr>) 0]
   \<and> timeouts (nodeFire 0 1 False (nodeStart 0 False exCommanderNode)) = []
   \<and> observerCalls (trace (nodeFire 0 1 False (nodeStart 0 False exCommanderNode)))
       = [\<lparr>mtype = START_REC, timestamp = 0, senderId = ''legate'', payload = exDelay 500\<rparr>]"
  by (simp add: ex_defs node_defs svc_defs)

section \<open>Stop while a start is pending\<close>







text \<open>
  The handler keeps the functions of the render in which the Legion effect ran. On a node
  whose stream arrived only after that render, the delayed start calls a
  \<^verbatim>\<open>startRecording\<close> that still sees no stream: the component holds a stream, is not
  recording, and nothing is recorded. Once the effect has run with the stream present, the
  same message leads to a recording.
\<close>

lemma late_stream_records_nothing:
  "stream (cam (streamReady (legionEffect 2 1 exEarlyNode)))
   \<and> timeouts (nodeReceive (Some (exMsg START_REC 0 (exDelay 500))) 50 False
        (streamReady (legionEffect 2 1 exEarlyNode))) = [(DelayedStart, 450)]
   \<and> nodeFire 0 500 False (nodeReceive (Some (exMsg START_REC 0 (exDelay 500))) 50 False
        (streamReady (legionEffect 2 1 exEarlyNode)))
      = (streamReady (legionEffect 2 1 exEarlyNode))
          \<lparr>trace := [CallMessageObserver 1 (exMsg START_REC 0 (exDelay 500)),
                     SetTimeout DelayedStart 450]\<rparr>
   \<and> isRecording (cam (nodeFire 0 500 False
        (nodeReceive (Some (exMsg START_REC 0 (exDelay 500))) 50 False
          (legionEffect 2 1 (streamReady exEarlyNode)))))"
  by (simp add: ex_defs node_defs svc_defs)

section \<open>Heartbeats and membership\<close>

text \<open>
  C2 on the code. A HEARTBEAT from \<open>node-b\<close> reaches the observer but creates no device
  record and calls no telemetry observer, while the same sender's HANDSHAKE does both.
  A node that handshakes at 0 and then sends a heartbeat every 5 s is removed by the sweep
  at 15011: its heartbeats did not refresh \<^verbatim>\<open>lastPing\<close>.
\<close>

theorem heartbeat_not_tracked:
  "devices (fst (handleMessage (exHeartbeat 1000) 1040 exFieldService)) = []
   \<and> snd (handleMessage (exHeartbeat 1000) 1040 exFieldService)
       = [CallMessageObserver 1 (exHeartbeat 1000)]
   \<and> map fst (devices (fst (handleMessage (exHandshake 1000) 1040 exFieldService))) = [''node-b'']
   \<and> map (lastPing \<circ> snd) (devices (run (butlast exHeartbeatOnlyEvents) exFieldService)) = [10]
   \<and> devices (run exHeartbeatOnlyEvents exFieldService) = []"
  by (simp add: ex_defs svc_defs)

section \<open>Initialisation\<close>

text \<open>
  C8 on the code. \<^verbatim>\<open>initialize('CENTURION', 'WIFI')\<close> without a target address returns
  normally, with the role set and the heartbeat interval running. With an address it
  returns normally before any connection exists; when the connection then fails (the socket
  closes), the role is still set. When the \<^verbatim>\<open>WebSocket\<close> constructor throws, the error
  reaches the caller with the role already assigned.
\<close>

theorem initialize_no_rollback:
  "initialize CENTURION WIFI None False 7 (newLegionService ''node-a'')
     = (Inr (), (newLegionService ''node-a'')\<lparr>role := Some CENTURION, heartbeatInterval := Some 7\<rparr>,
        [SetInterval HeartbeatTick 5000 7])
   \<and> fst (initialize CENTURION WIFI (Some ''10.0.0.9'') False 7 (newLegionService ''node-a''))
       = Inr ()
   \<and> role (run [Initialize CENTURION WIFI (Some ''10.0.0.9'') False 7, SocketClosed]
        (newLegionService ''node-a'')) = Some CENTURION
   \<and> fst (initialize CENTURION WIFI (Some ''10.0.0.9'') True 7 (newLegionService ''node-a''))
       = Inl WebSocketConstructorError
   \<and> role (fst (snd (initialize CENTURION WIFI (Some ''10.0.0.9'') True 7 (newLegionService ''node-a''))))
       = Some CENTURION"
  by (simp add: ex_defs svc_defs)

end
